theory Spec2Isabelle
  imports Main
begin

section \<open>Go values shared by both client variants\<close>

text \<open>
  The repository holds two variants of the SDK: \<open>Client\<close> (client.go, transport.go and the
  file with \<open>Acquire\<close>/\<open>Release\<close> built on a Lua script) and the older \<open>BrowserClient\<close>
  (one file with \<open>Acquire\<close>, \<open>Release\<close> and a polling \<open>Send\<close>). Both are embedded here.

  Go errors are values. What a call of the store client returns is a \<open>redis_error\<close>:
  \<open>redis.Nil\<close> and \<open>context.DeadlineExceeded\<close> are the two sentinels the source compares
  against with \<open>==\<close>, every other error is a \<open>RedisFailure\<close> with its text. An \<open>error\<close> of
  the SDK is such an error handed on as it is, a \<open>BrowserError\<close> (the SDK's own error
  type, with its \<open>Message\<close>), or an \<open>ErrorString\<close>, which is what \<open>errors.New\<close>,
  \<open>fmt.Errorf\<close> and the JSON decoder build.
\<close>

datatype redis_error =
    RedisNil
  | DeadlineExceeded
  | RedisFailure string

datatype go_error =
    RedisError redis_error
  | BrowserError string
  | ErrorString string

text \<open>\<open>err.Error()\<close>, which is also what the verb \<open>%v\<close> prints.\<close>

fun redis_Error :: "redis_error \<Rightarrow> string" where
  "redis_Error RedisNil = ''redis: nil''"
| "redis_Error DeadlineExceeded = ''context deadline exceeded''"
| "redis_Error (RedisFailure m) = m"

fun Error :: "go_error \<Rightarrow> string" where
  "Error (RedisError e) = redis_Error e"
| "Error (BrowserError m) = ''isoAutomate Error: '' @ m"
| "Error (ErrorString m) = m"

text \<open>
  \<open>map[string]interface{}\<close>: a JSON object, kept as an association list read with
  \<open>map_of\<close>; the nil map is the empty list (Go reads both alike). \<open>JUnsupported\<close> stands
  for a Go value \<open>encoding/json\<close> cannot encode (a channel, a function), with the text of
  the encoder's error.
\<close>

datatype jval = JNull | JBool bool | JNum int | JStr string | JUnsupported string

type_synonym jobject = "(string \<times> jval) list"

text \<open>
  A string read from the store, by what \<open>json.Unmarshal\<close> into a map makes of it: an object,
  or an error with its text.
\<close>

datatype raw = RawObject jobject | RawGarbage string

fun json_Unmarshal :: "raw \<Rightarrow> string + jobject" where
  "json_Unmarshal (RawObject obj) = Inr obj"
| "json_Unmarshal (RawGarbage e) = Inl e"

definition RedisPrefix :: string where
  "RedisPrefix = ''ISOAUTOMATE:''"

definition WorkersSet :: string where
  "WorkersSet = RedisPrefix @ ''workers''"

section \<open>Session, task payload and client (types.go, client.go)\<close>

record Session =
  BrowserID :: string
  WorkerName :: string
  BrowserType :: string
  Video :: bool
  Record :: bool
  ProfileID :: string

text \<open>
  \<open>TaskPayload\<close>; the fields carry the prefix \<open>p\<close> because a record field is a constant of
  its own. \<open>pArgs\<close> is \<open>None\<close> for a nil map. The four last fields are \<open>omitempty\<close>: the zero
  value (\<open>False\<close>, the empty string) is the field left out of the JSON.
\<close>

record TaskPayload =
  pTaskID :: string
  pBrowserID :: string
  pWorkerName :: string
  pAction :: string
  pArgs :: "jobject option"
  pResultKey :: string
  pVideo :: bool
  pRecord :: bool
  pProfileID :: string
  pBrowserType :: string

record Client =
  Session :: "Session option"
  SessionData :: jobject
  VideoURL :: string
  RecordURL :: string
  InitSent :: bool

text \<open>
  The types of the \<open>BrowserClient\<close> variant: its \<open>Session\<close> (prefix \<open>b\<close>), its
  \<open>CommandPayload\<close> (prefix \<open>c\<close>) and the client itself (prefix \<open>bc\<close>).
\<close>

record BSession =
  bBrowserID :: string
  bWorkerName :: string
  bBrowserType :: string
  bRecord :: bool

record CommandPayload =
  cTaskID :: string
  cBrowserID :: string
  cWorkerName :: string
  cBrowserType :: string
  cAction :: string
  cArgs :: jobject
  cResultKey :: string

record BrowserClient =
  bcSession :: "BSession option"
  bcVideoURL :: string
  bcSessionData :: jobject

section \<open>The world outside the client\<close>

text \<open>
  Every store command and every sleep of a client is one event, appended to \<open>events\<close>;
  \<open>now\<close> is the monotonic clock, in nanoseconds as \<open>time.Duration\<close>. What the store answers
  is read from oracles indexed by the position of the command in \<open>events\<close>: \<open>fault n\<close> is the
  error the command at position \<open>n\<close> returns (\<open>None\<close>: it goes through), \<open>latency n\<close> the time
  it takes, \<open>popped n\<close> the slice a \<open>BLPOP\<close> yields and \<open>fetched n\<close> the string a \<open>GET\<close>
  yields when they go through. The set-valued keys of the store (worker pool, free and
  busy sets) are real state: \<open>sets\<close> maps a key to its members, a missing key being the
  empty set. \<open>uuids\<close> and \<open>uuid_count\<close> are the source of \<open>uuid.New()\<close>, \<open>rand n\<close> the random
  draws available at position \<open>n\<close>, \<open>profile_file\<close> the content of
  \<open>.iso_profiles/default_profile.id\<close> when the file can be read.
\<close>

datatype data = TaskData TaskPayload | CommandData CommandPayload | NoData

datatype event =
    EVAL string string string
  | RPUSH string data
  | BLPOP string int
  | SMEMBERS string
  | SPOP string
  | SADD string string
  | GET string
  | DEL string
  | SLEEP int

type_synonym store = "string \<Rightarrow> string list"

record world =
  events :: "event list"
  now :: int
  fault :: "nat \<Rightarrow> redis_error option"
  latency :: "nat \<Rightarrow> nat"
  popped :: "nat \<Rightarrow> raw list"
  fetched :: "nat \<Rightarrow> raw"
  sets :: store
  rand :: "nat \<Rightarrow> nat \<Rightarrow> nat"
  uuids :: "nat \<Rightarrow> string"
  uuid_count :: nat
  profile_file :: "string option"

definition Millisecond :: int where
  "Millisecond = 1000000"

definition Second :: int where
  "Second = 1000000000"

text \<open>\<open>time.Sleep(d)\<close>.\<close>

definition Sleep :: "int \<Rightarrow> world \<Rightarrow> world" where
  "Sleep d w = w\<lparr>events := events w @ [SLEEP d], now := now w + d\<rparr>"

text \<open>
  One command sent to the store. It is logged and takes its latency. It fails with the
  fault the oracle holds for its position, the store left as it was; otherwise \<open>run\<close>
  gives its reply and the new content of the set-valued keys, in one step.
\<close>

definition store_call ::
  "event \<Rightarrow> (world \<Rightarrow> nat \<Rightarrow> (redis_error + 'a) \<times> store) \<Rightarrow> world
     \<Rightarrow> (redis_error + 'a) \<times> world" where
  "store_call cmd run w =
     (let n = length (events w);
          w1 = w\<lparr>events := events w @ [cmd], now := now w + int (latency w n)\<rparr>
      in case fault w n of
           Some e \<Rightarrow> (Inl e, w1)
         | None \<Rightarrow> (case run w n of (reply, st) \<Rightarrow> (reply, w1\<lparr>sets := st\<rparr>)))"

text \<open>A command that only reads: its reply is \<open>val\<close>, the sets stay.\<close>

definition read_call ::
  "event \<Rightarrow> (world \<Rightarrow> nat \<Rightarrow> 'a) \<Rightarrow> world \<Rightarrow> (redis_error + 'a) \<times> world" where
  "read_call cmd val = store_call cmd (\<lambda>w n. (Inr (val w n), sets w))"

text \<open>\<open>c.R.RPush(c.ctx, queue, data).Err()\<close>.\<close>

definition RPush :: "string \<Rightarrow> data \<Rightarrow> world \<Rightarrow> (redis_error + unit) \<times> world" where
  "RPush queue d = read_call (RPUSH queue d) (\<lambda>w n. ())"

text \<open>\<open>c.R.BLPop(ctx, timeout, resultKey).Result()\<close>.\<close>

definition BLPop :: "int \<Rightarrow> string \<Rightarrow> world \<Rightarrow> (redis_error + raw list) \<times> world" where
  "BLPop timeout key = read_call (BLPOP key timeout) popped"

text \<open>\<open>uuid.New()\<close>: the next identifier of the source of identifiers.\<close>

definition uuid_New :: "world \<Rightarrow> string \<times> world" where
  "uuid_New w = (uuids w (uuid_count w), w\<lparr>uuid_count := uuid_count w + 1\<rparr>)"

section \<open>The retry wrapper (transport.go, executeWithRetry)\<close>

definition maxAttempts :: nat where
  "maxAttempts = 3"

text \<open>
  \<open>time.Duration(float64(time.Second) * backoffFactor * (1 << (attempt - 1)))\<close> with
  \<open>backoffFactor = 0.2\<close>, taken exactly: a fifth of a second, doubled \<open>attempt - 1\<close> times.
\<close>

definition sleepTime :: "nat \<Rightarrow> int" where
  "sleepTime attempt = (Second div 5) * 2 ^ (attempt - 1)"

text \<open>
  The loop of \<open>executeWithRetry\<close>, from a given value of \<open>attempt\<close>. The operation is a
  closure over one call of the store client; here it maps the world to its result and the
  new world. The value it yields is what the closure leaves in the variable it captures
  (\<open>resultRaw\<close>).
\<close>

function retry_loop ::
  "(world \<Rightarrow> (redis_error + 'a) \<times> world) \<Rightarrow> nat \<Rightarrow> world \<Rightarrow> (redis_error + 'a) \<times> world" where
  "retry_loop op attempt w =
     (case op w of
        (Inr v, w1) \<Rightarrow> (Inr v, w1)
      | (Inl err, w1) \<Rightarrow>
          if err \<noteq> RedisNil \<and> attempt < maxAttempts
          then retry_loop op (attempt + 1) (Sleep (sleepTime (attempt + 1)) w1)
          else (Inl err, w1))"
  by pat_completeness auto
termination
  by (relation "measure (\<lambda>(op, attempt, w). maxAttempts - attempt)") auto

declare retry_loop.simps [simp del]

definition executeWithRetry ::
  "(world \<Rightarrow> (redis_error + 'a) \<times> world) \<Rightarrow> world \<Rightarrow> (redis_error + 'a) \<times> world" where
  "executeWithRetry op w = retry_loop op 0 w"

section \<open>The transport (transport.go, Send and SendWithTimeout)\<close>

definition NewBrowserError :: "string \<Rightarrow> go_error" where
  "NewBrowserError message = BrowserError message"

text \<open>
  \<open>json.Marshal(payload)\<close>: fails when the arguments hold a value the encoder refuses;
  otherwise the bytes pushed are the payload itself.
\<close>

definition json_Marshal :: "TaskPayload \<Rightarrow> string + data" where
  "json_Marshal payload =
     (case pArgs payload of
        None \<Rightarrow> Inr (TaskData payload)
      | Some args \<Rightarrow>
          (case [e. (k, JUnsupported e) \<leftarrow> args] of
             [] \<Rightarrow> Inr (TaskData payload)
           | e # _ \<Rightarrow> Inl e))"

definition DefaultRPCWait :: int where
  "DefaultRPCWait = 60 * Second"

text \<open>
  Step 3 of \<open>SendWithTimeout\<close>: the init flags, copied from the session only while
  \<open>InitSent\<close> is false.
\<close>

definition init_flags :: "Client \<Rightarrow> Session \<Rightarrow> TaskPayload \<Rightarrow> TaskPayload" where
  "init_flags c s payload =
     (if \<not> InitSent c then
        (let p1 = (if Video s then payload\<lparr>pVideo := True\<rparr> else payload);
             p2 = (if Record s then p1\<lparr>pRecord := True\<rparr> else p1)
         in if ProfileID s \<noteq> []
            then p2\<lparr>pProfileID := ProfileID s, pBrowserType := BrowserType s\<rparr>
            else p2)
      else payload)"

text \<open>Steps 1 to 3 of \<open>SendWithTimeout\<close>: the payload of the task.\<close>

definition task_payload ::
  "Client \<Rightarrow> Session \<Rightarrow> string \<Rightarrow> jobject option \<Rightarrow> string \<Rightarrow> TaskPayload" where
  "task_payload c s action args taskID =
     init_flags c s
       \<lparr>pTaskID = taskID, pBrowserID = BrowserID s, pWorkerName = WorkerName s,
        pAction = action, pArgs = args, pResultKey = RedisPrefix @ ''result:'' @ taskID,
        pVideo = False, pRecord = False, pProfileID = [], pBrowserType = []\<rparr>"

text \<open>
  \<open>SendWithTimeout\<close> returns \<open>(map, error)\<close> with exactly one of them nil: \<open>Inl\<close> the error,
  \<open>Inr\<close> the response. The client and the world are returned as the call leaves them.
\<close>

definition SendWithTimeout ::
  "Client \<Rightarrow> string \<Rightarrow> jobject option \<Rightarrow> int \<Rightarrow> world \<Rightarrow> (go_error + jobject) \<times> Client \<times> world" where
  "SendWithTimeout c action args timeout w =
     (case Session c of
        None \<Rightarrow>
          (Inl (NewBrowserError (''Cannot perform action '' @ [CHR 0x27] @ action @ [CHR 0x27]
                  @ '': Browser session not acquired.'')), c, w)
      | Some s \<Rightarrow>
          (let (taskID, w0) = uuid_New w;
               resultKey = RedisPrefix @ ''result:'' @ taskID;
               queue = RedisPrefix @ WorkerName s @ '':tasks'';
               payload = task_payload c s action args taskID
           in case json_Marshal payload of
                Inl e \<Rightarrow> (Inl (NewBrowserError (''Failed to serialize task payload: '' @ e)), c, w0)
              | Inr d \<Rightarrow>
                  (case executeWithRetry (RPush queue d) w0 of
                     (Inl err, w1) \<Rightarrow> (Inl (RedisError err), c, w1)
                   | (Inr _, w1) \<Rightarrow>
                       (case executeWithRetry (BLPop timeout resultKey) w1 of
                          (Inl err, w2) \<Rightarrow>
                            if err = RedisNil \<or> err = DeadlineExceeded
                            then (Inl (NewBrowserError ''Timeout waiting for worker response''), c, w2)
                            else (Inl (NewBrowserError (''Redis RPC Error: '' @ redis_Error err)), c, w2)
                        | (Inr resultRaw, w2) \<Rightarrow>
                            if length resultRaw < 2
                            then (Inl (NewBrowserError ''Invalid response from Redis''), c, w2)
                            else (case json_Unmarshal (resultRaw ! 1) of
                                    Inl e \<Rightarrow>
                                      (Inl (NewBrowserError (''Failed to parse worker response: '' @ e)),
                                       c, w2)
                                  | Inr resp \<Rightarrow> (Inr resp, c\<lparr>InitSent := True\<rparr>, w2))))))"

definition Send ::
  "Client \<Rightarrow> string \<Rightarrow> jobject option \<Rightarrow> world \<Rightarrow> (go_error + jobject) \<times> Client \<times> world" where
  "Send c action args w = SendWithTimeout c action args DefaultRPCWait w"

section \<open>Release of the Lua-based client\<close>

text \<open>
  A call either returns or panics (a nil dereference, a failed type assertion). A deferred
  function still runs when the call panics.
\<close>

datatype 'a outcome = Returns 'a | Panics

text \<open>
  Steps 1 and 2 of \<open>Release\<close>: the teardown command, and the URL of its answer kept when
  the answer holds one as a string.
\<close>

definition stop_video :: "Client \<Rightarrow> world \<Rightarrow> Client \<times> world" where
  "stop_video c w =
     (case SendWithTimeout c ''stop_video'' None (120 * Second) w of
        (Inr res, c1, w1) \<Rightarrow>
          (case map_of res ''video_url'' of
             Some (JStr url) \<Rightarrow> (c1\<lparr>VideoURL := url\<rparr>, w1)
           | _ \<Rightarrow> (c1, w1))
      | (Inl err, c1, w1) \<Rightarrow> (c1, w1))"

definition stop_record :: "Client \<Rightarrow> world \<Rightarrow> Client \<times> world" where
  "stop_record c w =
     (case SendWithTimeout c ''stop_record'' None (60 * Second) w of
        (Inr res, c1, w1) \<Rightarrow>
          (case map_of res ''record_url'' of
             Some (JStr url) \<Rightarrow> (c1\<lparr>RecordURL := url\<rparr>, w1)
           | _ \<Rightarrow> (c1, w1))
      | (Inl err, c1, w1) \<Rightarrow> (c1, w1))"

text \<open>
  \<open>Release\<close> returns \<open>(map, error)\<close>, here a pair with \<open>None\<close> for the nil error. The
  deferred \<open>c.Session = nil\<close> is applied on every path that passed the \<open>defer\<close>
  statement. \<open>c.Session.Record\<close> is read from the client as the first teardown left it.
\<close>

definition Release ::
  "Client \<Rightarrow> world \<Rightarrow> (jobject \<times> go_error option) outcome \<times> Client \<times> world" where
  "Release c w =
     (case Session c of
        None \<Rightarrow>
          (Returns ([(''status'', JStr ''error''), (''error'', JStr ''not_acquired'')], None), c, w)
      | Some s \<Rightarrow>
          (case (if Video s then stop_video c w else (c, w)) of (c1, w1) \<Rightarrow>
             (case Session c1 of
                None \<Rightarrow> (Panics, c1\<lparr>Session := None\<rparr>, w1)
              | Some s1 \<Rightarrow>
                  (case (if Record s1 then stop_record c1 w1 else (c1, w1)) of (c2, w2) \<Rightarrow>
                     (case Send c2 ''release_browser'' None w2 of
                        (Inl err, c3, w3) \<Rightarrow>
                          (Returns ([(''status'', JStr ''error''), (''error'', JStr (Error err))],
                                    Some err),
                           c3\<lparr>Session := None\<rparr>, w3)
                      | (Inr res, c3, w3) \<Rightarrow>
                          (Returns (res, None), c3\<lparr>SessionData := res, Session := None\<rparr>, w3))))))"

section \<open>Acquire of the Lua-based client\<close>

subsection \<open>The store's side: sets and the Lua script\<close>

text \<open>
  \<open>SPOP\<close> on the members of a set: nothing from the empty set, otherwise the member the
  draw selects, removed. \<open>SADD\<close> adds a member unless it is there.
\<close>

definition spop :: "nat \<Rightarrow> string list \<Rightarrow> string option \<times> string list" where
  "spop pick members =
     (if members = [] then (None, [])
      else (let bid = members ! (pick mod length members)
            in (Some bid, removeAll bid members)))"

definition sadd :: "string \<Rightarrow> string list \<Rightarrow> string list" where
  "sadd member members = (if member \<in> set members then members else members @ [member])"

text \<open>\<open>math.random(i)\<close>: an integer from 1 to \<open>i\<close>.\<close>

definition math_random :: "(nat \<Rightarrow> nat) \<Rightarrow> nat \<Rightarrow> nat" where
  "math_random rnd i = 1 + rnd i mod i"

text \<open>
  \<open>workers[i], workers[j] = workers[j], workers[i]\<close> with Lua's indices, which start at 1.
\<close>

definition lua_swap :: "string list \<Rightarrow> nat \<Rightarrow> nat \<Rightarrow> string list" where
  "lua_swap workers i j = workers[i - 1 := workers ! (j - 1), j - 1 := workers ! (i - 1)]"

text \<open>The loop \<open>for i = #workers, 2, -1\<close>, from a given \<open>i\<close> downwards.\<close>

fun lua_shuffle :: "(nat \<Rightarrow> nat) \<Rightarrow> nat \<Rightarrow> string list \<Rightarrow> string list" where
  "lua_shuffle rnd 0 workers = workers"
| "lua_shuffle rnd (Suc 0) workers = workers"
| "lua_shuffle rnd (Suc (Suc k)) workers =
     (let i = Suc (Suc k); j = math_random rnd i
      in lua_shuffle rnd (Suc k) (lua_swap workers i j))"

definition free_key :: "string \<Rightarrow> string \<Rightarrow> string \<Rightarrow> string" where
  "free_key prefix worker btype = prefix @ worker @ '':'' @ btype @ '':free''"

definition busy_key :: "string \<Rightarrow> string \<Rightarrow> string \<Rightarrow> string" where
  "busy_key prefix worker btype = prefix @ worker @ '':'' @ btype @ '':busy''"

text \<open>
  The loop \<open>for _, worker in ipairs(workers)\<close>: the first worker whose free set yields a
  member gives it up to its busy set, and the script returns the pair.
\<close>

fun lua_scan ::
  "string \<Rightarrow> string \<Rightarrow> nat \<Rightarrow> store \<Rightarrow> string list \<Rightarrow> (string \<times> string) option \<times> store" where
  "lua_scan prefix btype pick st [] = (None, st)"
| "lua_scan prefix btype pick st (worker # rest) =
     (case spop pick (st (free_key prefix worker btype)) of
        (Some bid, members) \<Rightarrow>
          (let st1 = st(free_key prefix worker btype := members);
               st2 = st1(busy_key prefix worker btype := sadd bid (st1 (busy_key prefix worker btype)))
           in (Some (worker, bid), st2))
      | (None, members) \<Rightarrow> lua_scan prefix btype pick st rest)"

text \<open>
  The whole script, run by the store as one command. \<open>rnd\<close> holds its random draws: draw
  \<open>i\<close> feeds \<open>math.random(i)\<close> of the shuffle, draw 0 the \<open>SPOP\<close> that finds a member.
\<close>

definition luaScript ::
  "(nat \<Rightarrow> nat) \<Rightarrow> string \<Rightarrow> string \<Rightarrow> string \<Rightarrow> store \<Rightarrow> (string \<times> string) option \<times> store" where
  "luaScript rnd key1 argv1 argv2 st =
     (let workers = st key1;
          shuffled = lua_shuffle rnd (length workers) workers
      in lua_scan argv1 argv2 (rnd 0) st shuffled)"

subsection \<open>The client's side\<close>

text \<open>
  What \<open>cmd.Result()\<close> hands to Go: nil, a slice of values, or a single value. The script's
  \<open>nil\<close> is taken to arrive as a nil result with a nil error, which is what the branch
  \<open>result == nil\<close> of \<open>Acquire\<close> is written for.
\<close>

datatype item = ItemString string | ItemInt int

datatype reply = ReplyNil | ReplySlice "item list" | ReplyValue item

fun to_reply :: "(string \<times> string) option \<Rightarrow> reply" where
  "to_reply None = ReplyNil"
| "to_reply (Some (worker, bid)) = ReplySlice [ItemString worker, ItemString bid]"

text \<open>\<open>c.R.Eval(c.ctx, luaScript, []string{WorkersSet}, RedisPrefix, browserType).Result()\<close>.\<close>

definition Eval :: "string \<Rightarrow> string \<Rightarrow> string \<Rightarrow> world \<Rightarrow> (redis_error + reply) \<times> world" where
  "Eval key1 argv1 argv2 =
     store_call (EVAL key1 argv1 argv2)
       (\<lambda>w n. case luaScript (rand w n) key1 argv1 argv2 (sets w) of
                 (res, st) \<Rightarrow> (Inr (to_reply res), st))"

text \<open>The \<open>profile\<close> argument, an \<open>interface{}\<close>.\<close>

datatype profile = ProfileNil | ProfileString string | ProfileBool bool | ProfileOther

text \<open>
  Step 1 of \<open>Acquire\<close>. For \<open>true\<close> the identifier is read from the profile file, or made
  from a fresh uuid and written there (the write's error is dropped by the source; the
  write is taken to succeed).
\<close>

fun resolve_profile :: "profile \<Rightarrow> world \<Rightarrow> string \<times> world" where
  "resolve_profile ProfileNil w = ([], w)"
| "resolve_profile (ProfileString pStr) w = (pStr, w)"
| "resolve_profile (ProfileBool pBool) w =
     (if pBool then
        (case profile_file w of
           Some content \<Rightarrow> (content, w)
         | None \<Rightarrow>
             (case uuid_New w of (u, w1) \<Rightarrow>
                (let profileID = ''user_'' @ take 8 u
                 in (profileID, w1\<lparr>profile_file := Some profileID\<rparr>))))
      else ([], w))"
| "resolve_profile ProfileOther w = ([], w)"

definition Acquire ::
  "Client \<Rightarrow> string \<Rightarrow> bool \<Rightarrow> profile \<Rightarrow> bool \<Rightarrow> world
     \<Rightarrow> (go_error + jobject) outcome \<times> Client \<times> world" where
  "Acquire c browserType video prof record w =
     (case resolve_profile prof w of (profileID, w0) \<Rightarrow>
        (let c0 = c\<lparr>InitSent := False\<rparr> in
         case Eval WorkersSet RedisPrefix browserType w0 of
           (Inl err, w1) \<Rightarrow>
             (Returns (Inl (NewBrowserError (''Redis Lua Error: '' @ redis_Error err))), c0, w1)
         | (Inr ReplyNil, w1) \<Rightarrow>
             (Returns (Inl (NewBrowserError (''No browsers available for type: '' @ [CHR 0x27]
                 @ browserType @ [CHR 0x27] @ ''. Check workers.''))), c0, w1)
         | (Inr (ReplyValue v), w1) \<Rightarrow>
             (Returns (Inl (NewBrowserError ''Invalid Lua response format'')), c0, w1)
         | (Inr (ReplySlice resSlice), w1) \<Rightarrow>
             if length resSlice < 2
             then (Returns (Inl (NewBrowserError ''Invalid Lua response format'')), c0, w1)
             else (case (resSlice ! 0, resSlice ! 1) of
                     (ItemString workerName, ItemString bid) \<Rightarrow>
                       (let c1 = c0\<lparr>Session := Some
                                  \<lparr>BrowserID = bid, WorkerName = workerName,
                                   BrowserType = browserType, Video = video, Record = record,
                                   ProfileID = profileID\<rparr>\<rparr>
                        in case (if profileID \<noteq> [] \<or> video \<or> record
                                 then (case Send c1 ''get_title'' None w1 of
                                         (res, c2, w2) \<Rightarrow> (c2, w2))
                                 else (c1, w1)) of
                             (c2, w2) \<Rightarrow>
                               (Returns (Inr [(''status'', JStr ''ok''), (''browser_id'', JStr bid),
                                              (''worker'', JStr workerName)]), c2, w2))
                   | _ \<Rightarrow> (Panics, c0, w1))))"

section \<open>The BrowserClient variant\<close>

subsection \<open>Store commands\<close>




text \<open>\<open>c.rdb.Get(c.ctx, key).Result()\<close>: a missing key is the fault \<open>redis.Nil\<close>.\<close>

definition Get :: "string \<Rightarrow> world \<Rightarrow> (redis_error + raw) \<times> world" where
  "Get key = read_call (GET key) fetched"

text \<open>\<open>c.rdb.Del(c.ctx, key)\<close>.\<close>

definition Del :: "string \<Rightarrow> world \<Rightarrow> (redis_error + unit) \<times> world" where
  "Del key = read_call (DEL key) (\<lambda>w n. ())"

subsection \<open>Send, with its polling loop\<close>

text \<open>
  The loop \<open>for time.Since(start) < timeout\<close>. It comes to an end because every turn that
  goes on sleeps 50 milliseconds.
\<close>

function poll_loop :: "string \<Rightarrow> int \<Rightarrow> int \<Rightarrow> world \<Rightarrow> (go_error + jobject) \<times> world" where
  "poll_loop resultKey start timeout w =
     (if now w - start < timeout then
        (case Get resultKey w of
           (Inl err, w1) \<Rightarrow>
             if err = RedisNil
             then poll_loop resultKey start timeout (Sleep (50 * Millisecond) w1)
             else (Inl (RedisError err), w1)
         | (Inr val, w1) \<Rightarrow>
             (case Del resultKey w1 of (deleted, w2) \<Rightarrow>
                (case json_Unmarshal val of
                   Inl e \<Rightarrow> (Inl (ErrorString e), w2)
                 | Inr res \<Rightarrow> (Inr res, w2))))
      else (Inl (ErrorString ''timeout waiting for worker response''), w))"
  by pat_completeness auto
termination
  by (relation "measure (\<lambda>(resultKey, start, timeout, w). nat (timeout - (now w - start)))")
     (auto simp: Get_def read_call_def store_call_def Sleep_def Millisecond_def Let_def
           split: option.splits)

declare poll_loop.simps [simp del]

text \<open>
  \<open>json.Marshal(payload)\<close> with its error dropped: the bytes are empty when the encoder
  refuses the arguments.
\<close>

definition command_bytes :: "CommandPayload \<Rightarrow> data" where
  "command_bytes payload =
     (case [e. (k, JUnsupported e) \<leftarrow> cArgs payload] of
        [] \<Rightarrow> CommandData payload
      | e # _ \<Rightarrow> NoData)"

definition BrowserClient_Send ::
  "BrowserClient \<Rightarrow> string \<Rightarrow> jobject option \<Rightarrow> int \<Rightarrow> world
     \<Rightarrow> (go_error + jobject) \<times> BrowserClient \<times> world" where
  "BrowserClient_Send c action args timeoutSeconds w =
     (case bcSession c of
        None \<Rightarrow> (Inl (ErrorString ''session not acquired''), c, w)
      | Some s \<Rightarrow>
          (let args1 = (case args of None \<Rightarrow> [] | Some a \<Rightarrow> a) in
           case uuid_New w of (taskID, w0) \<Rightarrow>
             (let taskIDHex = filter (\<lambda>ch. ch \<noteq> CHR ''-'') taskID;
                  resultKey = RedisPrefix @ ''result:'' @ taskIDHex;
                  queue = RedisPrefix @ bWorkerName s @ '':tasks'';
                  payload = \<lparr>cTaskID = taskIDHex, cBrowserID = bBrowserID s,
                             cWorkerName = bWorkerName s, cBrowserType = bBrowserType s,
                             cAction = action, cArgs = args1, cResultKey = resultKey\<rparr>
              in case RPush queue (command_bytes payload) w0 of (pushed, w1) \<Rightarrow>
                   (let start = now w1; timeout = timeoutSeconds * Second
                    in case poll_loop resultKey start timeout w1 of
                         (res, w2) \<Rightarrow> (res, c, w2)))))"

subsection \<open>Acquire and Release\<close>






text \<open>\<open>Release\<close> returns \<open>(res, err)\<close> as the last \<open>Send\<close> gave them; the nil map is \<open>[]\<close>.\<close>

definition BrowserClient_Release ::
  "BrowserClient \<Rightarrow> world \<Rightarrow> (jobject \<times> go_error option) \<times> BrowserClient \<times> world" where
  "BrowserClient_Release c w =
     (case bcSession c of
        None \<Rightarrow> (([], Some (ErrorString ''no active session'')), c, w)
      | Some s \<Rightarrow>
          (case (if bRecord s
                 then (case BrowserClient_Send c ''stop_recording'' None 120 w of
                         (Inr res, c1, w1) \<Rightarrow>
                           (case map_of res ''video_url'' of
                              Some (JStr v) \<Rightarrow> (c1\<lparr>bcVideoURL := v\<rparr>, w1)
                            | _ \<Rightarrow> (c1, w1))
                       | (Inl err, c1, w1) \<Rightarrow> (c1, w1))
                 else (c, w)) of
             (c1, w1) \<Rightarrow>
               (case BrowserClient_Send c1 ''release_browser'' None 60 w1 of
                  (Inl err, c2, w2) \<Rightarrow>
                    (([], Some err), c2\<lparr>bcSessionData := [], bcSession := None\<rparr>, w2)
                | (Inr res, c2, w2) \<Rightarrow>
                    ((res, None), c2\<lparr>bcSessionData := res, bcSession := None\<rparr>, w2))))"

subsection \<open>Acquire, one store command at a time\<close>






section \<open>Notions used to state the properties\<close>


text \<open>
  Of the result of an \<open>Acquire\<close> of the Lua-based client: the pair it reports as claimed,
  and whether the script ran at all (the result is not the Lua error).
\<close>

fun claimed :: "(go_error + jobject) outcome \<Rightarrow> (string \<times> string) option" where
  "claimed (Returns (Inr res)) =
     (case (map_of res ''worker'', map_of res ''browser_id'') of
        (Some (JStr worker), Some (JStr bid)) \<Rightarrow> Some (worker, bid)
      | _ \<Rightarrow> None)"
| "claimed (Returns (Inl err)) = None"
| "claimed Panics = None"














text \<open>The error of a result, \<open>None\<close> for the nil error.\<close>

fun err_of :: "'e + 'a \<Rightarrow> 'e option" where
  "err_of (Inl e) = Some e"
| "err_of (Inr v) = None"

text \<open>
  What attempt \<open>k\<close> (counted from 0) of a retried command meets when the retrying starts in
  the world \<open>w\<close>: every earlier attempt took two positions of the log, the command and
  the sleep after it.
\<close>

definition outcome :: "world \<Rightarrow> nat \<Rightarrow> redis_error option" where
  "outcome w k = fault w (length (events w) + 2 * k)"

text \<open>The log of \<open>n + 1\<close> attempts from the value \<open>a\<close> of \<open>attempt\<close> on.\<close>

fun retry_trace :: "event \<Rightarrow> nat \<Rightarrow> nat \<Rightarrow> event list" where
  "retry_trace c a 0 = [c]"
| "retry_trace c a (Suc n) = c # SLEEP (sleepTime (Suc a)) # retry_trace c (Suc a) n"

text \<open>
  The log of a command tried \<open>n + 1\<close> times under the retry policy of the specification:
  sleeps of 0.2, 0.4 and 0.8 seconds between the attempts.
\<close>

definition backoff :: "event \<Rightarrow> nat \<Rightarrow> event list" where
  "backoff cmd n = take (2 * n + 1)
     [cmd, SLEEP 200000000, cmd, SLEEP 400000000, cmd, SLEEP 800000000, cmd]"

text \<open>
  The retry policy in the words of the specification, for a command \<open>cmd\<close> retried from
  the world \<open>w\<close>, with the error \<open>err\<close> returned and the world \<open>w'\<close> left. There are \<open>n\<close>
  retries, at most 3; the log grows by \<open>n + 1\<close> attempts with sleeps of 0.2, 0.4 and 0.8
  seconds between them; every attempt that was retried had failed with an error other
  than \<open>redis.Nil\<close>; the error returned is the one of the last attempt (none when it went
  through); and the last attempt went through, met \<open>redis.Nil\<close>, or was the fourth.
\<close>

definition retry_policy :: "event \<Rightarrow> world \<Rightarrow> redis_error option \<Rightarrow> world \<Rightarrow> bool" where
  "retry_policy cmd w err w' \<longleftrightarrow>
     (\<exists>n\<le>3.
        events w' = events w @ backoff cmd n \<and>
        (\<forall>k<n. outcome w k \<noteq> None \<and> outcome w k \<noteq> Some RedisNil) \<and>
        err = outcome w n \<and>
        (err = None \<or> err = Some RedisNil \<or> n = 3))"

text \<open>The events a call appended to the log, between the world before and the one after.\<close>

definition added :: "world \<Rightarrow> world \<Rightarrow> event list" where
  "added w w' = drop (length (events w)) (events w')"

text \<open>
  Two steps of \<open>SendWithTimeout\<close> as functions of their own, to name them in proofs: the
  error made of a failed pop, and step 6 with the update of \<open>InitSent\<close>.
\<close>

definition pop_error :: "redis_error \<Rightarrow> go_error" where
  "pop_error err =
     (if err = RedisNil \<or> err = DeadlineExceeded
      then NewBrowserError ''Timeout waiting for worker response''
      else NewBrowserError (''Redis RPC Error: '' @ redis_Error err))"

definition parse_reply :: "Client \<Rightarrow> raw list \<Rightarrow> (go_error + jobject) \<times> Client" where
  "parse_reply c resultRaw =
     (if length resultRaw < 2 then (Inl (NewBrowserError ''Invalid response from Redis''), c)
      else (case json_Unmarshal (resultRaw ! 1) of
              Inl e \<Rightarrow> (Inl (NewBrowserError (''Failed to parse worker response: '' @ e)), c)
            | Inr resp \<Rightarrow> (Inr resp, c\<lparr>InitSent := True\<rparr>)))"

text \<open>The values \<open>Acquire\<close> of the Lua-based client returns, by name.\<close>

definition no_browsers_error :: "string \<Rightarrow> go_error" where
  "no_browsers_error browserType =
     BrowserError (''No browsers available for type: '' @ [CHR 0x27] @ browserType @ [CHR 0x27]
       @ ''. Check workers.'')"

definition lua_error :: "redis_error \<Rightarrow> go_error" where
  "lua_error err = BrowserError (''Redis Lua Error: '' @ redis_Error err)"

definition acquired :: "string \<Rightarrow> string \<Rightarrow> jobject" where
  "acquired worker bid =
     [(''status'', JStr ''ok''), (''browser_id'', JStr bid), (''worker'', JStr worker)]"

subsection \<open>Concrete worlds and clients\<close>

text \<open>
  A world with nothing in the store and no fault, and variants of it: a store whose first
  two commands fail; a pool of one worker \<open>w1\<close> with the free chrome instance \<open>b1\<close>; a
  store whose second command, the pop of the first task, meets \<open>redis.Nil\<close>. Every
  \<open>BLPOP\<close> and \<open>GET\<close> that goes through yields the answer \<open>{"status": "ok"}\<close>.
\<close>

definition quiet_world :: world where
  "quiet_world =
     \<lparr>events = [], now = 0, fault = (\<lambda>n. None), latency = (\<lambda>n. 0),
      popped = (\<lambda>n. [RawObject [], RawObject [(''status'', JStr ''ok'')]]),
      fetched = (\<lambda>n. RawObject [(''status'', JStr ''ok'')]),
      sets = (\<lambda>k. []), rand = (\<lambda>n i. 0), uuids = (\<lambda>n. ''u''), uuid_count = 0,
      profile_file = None\<rparr>"

definition flaky_world :: world where
  "flaky_world =
     quiet_world\<lparr>fault := (\<lambda>n. if n = 0 \<or> n = 2 then Some (RedisFailure ''connection refused'')
                              else None)\<rparr>"

definition pool_world :: world where
  "pool_world =
     quiet_world\<lparr>sets := (\<lambda>k. if k = ''ISOAUTOMATE:workers'' then [''w1'']
                             else if k = ''ISOAUTOMATE:w1:chrome:free'' then [''b1'']
                             else [])\<rparr>"

text \<open>
  A pool of two workers with one free chrome instance each, and a caller of the Lua-based
  client that asks for no profile, video or record.
\<close>

definition pair_world :: world where
  "pair_world =
     quiet_world\<lparr>sets := (\<lambda>k. if k = ''ISOAUTOMATE:workers'' then [''w1'', ''w2'']
                             else if k = ''ISOAUTOMATE:w1:chrome:free'' then [''b1'']
                             else if k = ''ISOAUTOMATE:w2:chrome:free'' then [''b2'']
                             else [])\<rparr>"

text \<open>The pool of \<open>pool_world\<close> with \<open>b1\<close> busy and nothing free.\<close>

definition busy_world :: world where
  "busy_world =
     quiet_world\<lparr>sets := (\<lambda>k. if k = ''ISOAUTOMATE:workers'' then [''w1'']
                             else if k = ''ISOAUTOMATE:w1:chrome:busy'' then [''b1'']
                             else [])\<rparr>"

definition silent_world :: world where
  "silent_world = quiet_world\<lparr>fault := (\<lambda>n. if n = 1 then Some RedisNil else None)\<rparr>"

text \<open>
  Clients: one without a session; one bound to \<open>b1\<close> on \<open>w1\<close> with no flag and no
  profile; one whose session asks for video.
\<close>

definition plain_session :: Session where
  "plain_session = \<lparr>BrowserID = ''b1'', WorkerName = ''w1'', BrowserType = ''chrome'',
      Video = False, Record = False, ProfileID = []\<rparr>"

definition video_session :: Session where
  "video_session = plain_session\<lparr>Video := True\<rparr>"

definition idle_client :: Client where
  "idle_client =
     \<lparr>Session = None, SessionData = [], VideoURL = [], RecordURL = [], InitSent = False\<rparr>"

definition fresh_client :: Client where
  "fresh_client = idle_client\<lparr>Session := Some plain_session\<rparr>"

definition video_client :: Client where
  "video_client = idle_client\<lparr>Session := Some video_session\<rparr>"

text \<open>
  The same for the BrowserClient: one without a session, one bound to \<open>b1\<close> on \<open>w1\<close>.
\<close>

definition idle_browser_client :: BrowserClient where
  "idle_browser_client = \<lparr>bcSession = None, bcVideoURL = [], bcSessionData = []\<rparr>"

definition live_browser_client :: BrowserClient where
  "live_browser_client =
     idle_browser_client\<lparr>bcSession := Some \<lparr>bBrowserID = ''b1'', bWorkerName = ''w1'',
        bBrowserType = ''chrome'', bRecord = False\<rparr>\<rparr>"

definition plain_call :: "Client \<times> bool \<times> profile \<times> bool" where
  "plain_call = (idle_client, False, ProfileNil, False)"

section \<open>The retry wrapper\<close>

text \<open>The equations that run the store commands and the retry loop on a concrete world.\<close>

lemmas store_defs = store_call_def read_call_def RPush_def BLPop_def Sleep_def Let_def
  executeWithRetry_def retry_loop.simps maxAttempts_def sleepTime_def Second_def

lemmas send_defs = SendWithTimeout_def Send_def DefaultRPCWait_def uuid_New_def task_payload_def
  init_flags_def json_Marshal_def NewBrowserError_def RedisPrefix_def

lemmas fixture_defs = quiet_world_def flaky_world_def pool_world_def silent_world_def
  busy_world_def pair_world_def plain_call_def
  plain_session_def video_session_def idle_client_def fresh_client_def video_client_def
  idle_browser_client_def live_browser_client_def

lemma read_call_fst:
  "fst (read_call c val w) =
     (case fault w (length (events w)) of Some e \<Rightarrow> Inl e | None \<Rightarrow> Inr (val w (length (events w))))"
  by (simp add: read_call_def store_call_def Let_def split: option.splits)

lemma read_call_snd:
  "snd (read_call c val w) =
     w\<lparr>events := events w @ [c], now := now w + int (latency w (length (events w)))\<rparr>"
  by (simp add: read_call_def store_call_def Let_def split: option.splits)

lemma retry_loop_read_call:
  assumes val: "\<And>w es t. val (w\<lparr>events := es, now := t\<rparr>) = val w"
  shows "\<exists>n t. (a \<le> maxAttempts \<longrightarrow> a + n \<le> maxAttempts) \<and>
     snd (retry_loop (read_call c val) a w) = w\<lparr>events := events w @ retry_trace c a n, now := t\<rparr> \<and>
     (\<forall>k<n. \<exists>e. outcome w k = Some e \<and> e \<noteq> RedisNil) \<and>
     fst (retry_loop (read_call c val) a w) =
       (case outcome w n of None \<Rightarrow> Inr (val w (length (events w) + 2 * n)) | Some e \<Rightarrow> Inl e) \<and>
     (\<forall>e. outcome w n = Some e \<longrightarrow> e = RedisNil \<or> maxAttempts \<le> a + n)"
proof (induction "maxAttempts - a" arbitrary: a w)
  case 0
  then have a: "\<not> a < maxAttempts" by simp
  have eq: "retry_loop (read_call c val) a w = read_call c val w"
    by (subst retry_loop.simps) (use a in \<open>auto split: prod.splits sum.splits\<close>)
  show ?case
    apply (rule exI[of _ 0], rule exI[of _ "now w + int (latency w (length (events w)))"])
    using a eq
    by (auto simp: read_call_fst read_call_snd outcome_def split: option.splits)
next
  case (Suc d)
  then have a: "a < maxAttempts" and d: "d = maxAttempts - Suc a" by simp_all
  let ?n0 = "length (events w)"
  let ?op = "read_call c val"
  show ?case
  proof (cases "\<exists>e. fault w ?n0 = Some e \<and> e \<noteq> RedisNil")
    case False
    have eq: "retry_loop ?op a w = ?op w"
      apply (subst retry_loop.simps)
      apply (cases "?op w")
      using False read_call_fst[of c val w]
      by (auto split: sum.splits option.splits)
    show ?thesis
      apply (rule exI[of _ 0], rule exI[of _ "now w + int (latency w (length (events w)))"])
      using False eq
      by (auto simp: read_call_fst read_call_snd outcome_def split: option.splits)
  next
    case True
    then obtain e where e: "fault w ?n0 = Some e" "e \<noteq> RedisNil" by blast
    let ?w1 = "Sleep (sleepTime (Suc a)) (snd (?op w))"
    have step: "retry_loop ?op a w = retry_loop ?op (Suc a) ?w1"
      apply (subst retry_loop.simps)
      apply (cases "?op w")
      using e a read_call_fst[of c val w]
      by (auto split: sum.splits)
    from Suc.hyps(1)[OF d, of ?w1] obtain n t where
      n: "(Suc a \<le> maxAttempts \<longrightarrow> Suc a + n \<le> maxAttempts)"
        "snd (retry_loop ?op (Suc a) ?w1) = ?w1\<lparr>events := events ?w1 @ retry_trace c (Suc a) n, now := t\<rparr>"
        "(\<forall>k<n. \<exists>e. outcome ?w1 k = Some e \<and> e \<noteq> RedisNil)"
        "fst (retry_loop ?op (Suc a) ?w1) =
           (case outcome ?w1 n of None \<Rightarrow> Inr (val ?w1 (length (events ?w1) + 2 * n)) | Some e \<Rightarrow> Inl e)"
        "(\<forall>e. outcome ?w1 n = Some e \<longrightarrow> e = RedisNil \<or> maxAttempts \<le> Suc a + n)"
      by blast
    have o: "\<And>k. outcome ?w1 k = outcome w (Suc k)"
      by (simp add: outcome_def Sleep_def read_call_snd)
    have v: "val ?w1 = val w" by (simp add: Sleep_def read_call_snd val)
    have l: "length (events ?w1) = ?n0 + 2" by (simp add: Sleep_def read_call_snd)
    have n1: "a + Suc n \<le> maxAttempts" using n(1) a by simp
    have n2: "snd (retry_loop ?op a w) = w\<lparr>events := events w @ retry_trace c a (Suc n), now := t\<rparr>"
      using n(2) by (simp add: step Sleep_def read_call_snd)
    have n3: "\<forall>k<Suc n. \<exists>e. outcome w k = Some e \<and> e \<noteq> RedisNil"
    proof (intro allI impI)
      fix k assume "k < Suc n"
      then show "\<exists>e. outcome w k = Some e \<and> e \<noteq> RedisNil"
      proof (cases k)
        case 0
        then show ?thesis using e by (simp add: outcome_def)
      next
        case (Suc j)
        with \<open>k < Suc n\<close> have "j < n" by simp
        with n(3) show ?thesis unfolding Suc o by blast
      qed
    qed
    have n4: "fst (retry_loop ?op a w) =
        (case outcome w (Suc n) of None \<Rightarrow> Inr (val w (length (events w) + 2 * Suc n)) | Some e \<Rightarrow> Inl e)"
      using n(4) by (simp add: step o v l split: option.splits)
    have n5: "\<forall>e. outcome w (Suc n) = Some e \<longrightarrow> e = RedisNil \<or> maxAttempts \<le> a + Suc n"
      using n(5) by (simp add: o)
    show ?thesis
      using n1 n2 n3 n4 n5 by blast
  qed
qed

lemma retry_trace_explicit:
  "n \<le> 3 \<Longrightarrow> retry_trace cmd 0 n = backoff cmd n"
proof -
  assume "n \<le> 3"
  then consider "n = 0" | "n = 1" | "n = 2" | "n = 3" by linarith
  then show ?thesis
    by cases (simp_all add: numeral_2_eq_2 numeral_3_eq_3 sleepTime_def Second_def backoff_def)
qed

lemma executeWithRetry_read_call:
  assumes val: "\<And>w es t. val (w\<lparr>events := es, now := t\<rparr>) = val w"
  shows "retry_policy cmd w (err_of (fst (executeWithRetry (read_call cmd val) w)))
           (snd (executeWithRetry (read_call cmd val) w))"
proof -
  from retry_loop_read_call[of val 0 cmd w, OF val] obtain n t where
    n: "n \<le> maxAttempts"
      "snd (retry_loop (read_call cmd val) 0 w) = w\<lparr>events := events w @ retry_trace cmd 0 n, now := t\<rparr>"
      "(\<forall>k<n. \<exists>e. outcome w k = Some e \<and> e \<noteq> RedisNil)"
      "fst (retry_loop (read_call cmd val) 0 w) =
         (case outcome w n of None \<Rightarrow> Inr (val w (length (events w) + 2 * n)) | Some e \<Rightarrow> Inl e)"
      "(\<forall>e. outcome w n = Some e \<longrightarrow> e = RedisNil \<or> maxAttempts \<le> n)"
    by auto
  have n3: "n \<le> 3" using n(1) by (simp add: maxAttempts_def)
  have e: "err_of (fst (retry_loop (read_call cmd val) 0 w)) = outcome w n"
    by (simp add: n(4) split: option.splits)
  have stop: "outcome w n = None \<or> outcome w n = Some RedisNil \<or> n = 3"
    using n(5) n3 by (cases "outcome w n") (auto simp: maxAttempts_def)
  show ?thesis
    unfolding retry_policy_def executeWithRetry_def e
    apply (rule exI[of _ n])
    using n3 n(2) n(3) stop by (auto simp: retry_trace_explicit)
qed

text \<open>
  Claim C5. A queue append or a blocking pop wrapped by \<open>executeWithRetry\<close> follows the
  retry policy: at most four attempts, sleeps of 0.2, 0.4 and 0.8 seconds between them,
  only an error other than \<open>redis.Nil\<close> is retried, and the wrapper returns no error
  exactly when its last attempt went through, every earlier one having failed.
\<close>

theorem executeWithRetry_policy:
  "retry_policy (RPUSH queue d) w
     (err_of (fst (executeWithRetry (RPush queue d) w))) (snd (executeWithRetry (RPush queue d) w)) \<and>
   retry_policy (BLPOP key timeout) w
     (err_of (fst (executeWithRetry (BLPop timeout key) w))) (snd (executeWithRetry (BLPop timeout key) w))"
  unfolding RPush_def BLPop_def
  by (intro conjI executeWithRetry_read_call) simp_all

text \<open>
  The policy at work: the store refuses the first two attempts, the third goes through
  after sleeps of 0.2 and 0.4 seconds.
\<close>

theorem executeWithRetry_policy_witness:
  "retry_policy (RPUSH ''q'' NoData) flaky_world
     (err_of (fst (executeWithRetry (RPush ''q'' NoData) flaky_world)))
     (snd (executeWithRetry (RPush ''q'' NoData) flaky_world)) \<and>
   retry_policy (BLPOP ''k'' 5) flaky_world
     (err_of (fst (executeWithRetry (BLPop 5 ''k'') flaky_world)))
     (snd (executeWithRetry (BLPop 5 ''k'') flaky_world)) \<and>
   fst (executeWithRetry (RPush ''q'' NoData) flaky_world) = Inr () \<and>
   events (snd (executeWithRetry (RPush ''q'' NoData) flaky_world)) =
     [RPUSH ''q'' NoData, SLEEP 200000000, RPUSH ''q'' NoData, SLEEP 400000000, RPUSH ''q'' NoData]"
  using executeWithRetry_policy[of "''q''" NoData flaky_world "''k''" 5]
  by (simp add: store_defs fixture_defs)

section \<open>The transport\<close>

subsection \<open>What a call of SendWithTimeout does to the client and the world\<close>

lemma backoff_facts:
  assumes "n \<le> 3"
  shows "length (backoff cmd n) = 2 * n + 1" "last (backoff cmd n) = cmd" "hd (backoff cmd n) = cmd"
    "backoff cmd n \<noteq> []" "set (backoff cmd n) \<subseteq> {cmd, SLEEP 200000000, SLEEP 400000000, SLEEP 800000000}"
proof -
  from assms consider "n = 0" | "n = 1" | "n = 2" | "n = 3" by linarith
  then show "length (backoff cmd n) = 2 * n + 1" "last (backoff cmd n) = cmd" "hd (backoff cmd n) = cmd"
    "backoff cmd n \<noteq> []" "set (backoff cmd n) \<subseteq> {cmd, SLEEP 200000000, SLEEP 400000000, SLEEP 800000000}"
    by (cases; simp add: backoff_def)+
qed

lemma executeWithRetry_world:
  assumes val: "\<And>w es t. val (w\<lparr>events := es, now := t\<rparr>) = val w"
  shows "\<exists>n t. n \<le> 3 \<and>
     snd (executeWithRetry (read_call cmd val) w) = w\<lparr>events := events w @ backoff cmd n, now := t\<rparr> \<and>
     fst (executeWithRetry (read_call cmd val) w) =
       (case fault w (length (events w) + 2 * n) of
          None \<Rightarrow> Inr (val w (length (events w) + 2 * n)) | Some e \<Rightarrow> Inl e)"
proof -
  from retry_loop_read_call[of val 0 cmd w, OF val] obtain n t where
    n: "n \<le> maxAttempts"
      "snd (retry_loop (read_call cmd val) 0 w) = w\<lparr>events := events w @ retry_trace cmd 0 n, now := t\<rparr>"
      "fst (retry_loop (read_call cmd val) 0 w) =
         (case outcome w n of None \<Rightarrow> Inr (val w (length (events w) + 2 * n)) | Some e \<Rightarrow> Inl e)"
    by auto
  have n3: "n \<le> 3" using n(1) by (simp add: maxAttempts_def)
  show ?thesis
    apply (rule exI[of _ n], rule exI[of _ t])
    using n3 n(2) n(3)
    by (simp add: executeWithRetry_def retry_trace_explicit backoff_def outcome_def)
qed

lemma json_Marshal_Inr: "json_Marshal p = Inr d \<Longrightarrow> d = TaskData p"
  by (auto simp: json_Marshal_def split: option.splits list.splits)

text \<open>
  The four ways a call on a live session ends: the payload cannot be encoded; the push
  fails for good after \<open>n\<close> retries; the push goes through after \<open>n\<close> retries and the pop
  fails for good after \<open>m\<close>; both go through and the popped slice is parsed.
\<close>

lemma SendWithTimeout_shape:
  fixes c :: Client and s :: Session and w :: world and action :: string
    and args :: "jobject option" and timeout :: int
  assumes s: "Session c = Some s"
  defines "tid \<equiv> uuids w (uuid_count w)"
  defines "p \<equiv> task_payload c s action args tid"
  defines "q \<equiv> RedisPrefix @ WorkerName s @ '':tasks''"
  defines "k \<equiv> RedisPrefix @ ''result:'' @ tid"
  defines "w0 \<equiv> w\<lparr>uuid_count := uuid_count w + 1\<rparr>"
  obtains
    (serialize) e where "json_Marshal p = Inl e"
      "SendWithTimeout c action args timeout w =
         (Inl (NewBrowserError (''Failed to serialize task payload: '' @ e)), c, w0)"
  | (push_failed) n t e where "n \<le> 3"
      "fault w (length (events w) + 2 * n) = Some e"
      "SendWithTimeout c action args timeout w =
         (Inl (RedisError e), c,
          w0\<lparr>events := events w @ backoff (RPUSH q (TaskData p)) n, now := t\<rparr>)"
  | (pop_failed) n m t e where "n \<le> 3" "m \<le> 3"
      "fault w (length (events w) + 2 * n + 1 + 2 * m) = Some e"
      "SendWithTimeout c action args timeout w =
         (Inl (pop_error e), c,
          w0\<lparr>events := events w @ backoff (RPUSH q (TaskData p)) n @ backoff (BLPOP k timeout) m,
             now := t\<rparr>)"
  | (popped) n m t where "n \<le> 3" "m \<le> 3"
      "fault w (length (events w) + 2 * n + 1 + 2 * m) = None"
      "SendWithTimeout c action args timeout w =
         (fst (parse_reply c (popped w (length (events w) + 2 * n + 1 + 2 * m))),
          snd (parse_reply c (popped w (length (events w) + 2 * n + 1 + 2 * m))),
          w0\<lparr>events := events w @ backoff (RPUSH q (TaskData p)) n @ backoff (BLPOP k timeout) m,
             now := t\<rparr>)"
proof (cases "json_Marshal p")
  case (Inl e)
  then have "SendWithTimeout c action args timeout w =
         (Inl (NewBrowserError (''Failed to serialize task payload: '' @ e)), c, w0)"
    using s by (simp add: SendWithTimeout_def uuid_New_def Let_def p_def tid_def w0_def)
  with Inl show ?thesis by (rule serialize)
next
  case (Inr d)
  then have d: "d = TaskData p" by (rule json_Marshal_Inr)
  let ?push = "executeWithRetry (RPush q d) w0"
  from executeWithRetry_world[of "\<lambda>w n. ()" "RPUSH q d" w0] obtain n t where
    n: "n \<le> 3"
      "snd ?push = w0\<lparr>events := events w0 @ backoff (RPUSH q d) n, now := t\<rparr>"
      "fst ?push = (case fault w0 (length (events w0) + 2 * n) of None \<Rightarrow> Inr () | Some e \<Rightarrow> Inl e)"
    unfolding RPush_def by auto
  let ?w1 = "w0\<lparr>events := events w0 @ backoff (RPUSH q d) n, now := t\<rparr>"
  have head: "SendWithTimeout c action args timeout w =
      (case ?push of
         (Inl err, w1) \<Rightarrow> (Inl (RedisError err), c, w1)
       | (Inr u, w1) \<Rightarrow>
           (case executeWithRetry (BLPop timeout k) w1 of
              (Inl err, w2) \<Rightarrow> (Inl (pop_error err), c, w2)
            | (Inr resultRaw, w2) \<Rightarrow>
                (fst (parse_reply c resultRaw), snd (parse_reply c resultRaw), w2)))"
    using s Inr
    by (auto simp: SendWithTimeout_def uuid_New_def Let_def p_def tid_def w0_def q_def k_def
          pop_error_def parse_reply_def split: prod.splits sum.splits)
  show ?thesis
  proof (cases "fault w (length (events w) + 2 * n)")
    case (Some e)
    then have "?push = (Inl e, ?w1)"
      using n(2) n(3) by (simp add: prod_eq_iff w0_def)
    then have "SendWithTimeout c action args timeout w = (Inl (RedisError e), c, ?w1)"
      by (simp add: head)
    then show ?thesis
      using push_failed[OF n(1) Some] by (simp add: d w0_def)
  next
    case None
    then have push: "?push = (Inr (), ?w1)"
      using n(2) n(3) by (simp add: prod_eq_iff w0_def)
    let ?pop = "executeWithRetry (BLPop timeout k) ?w1"
    from executeWithRetry_world[of popped "BLPOP k timeout" ?w1] obtain m t' where
      m: "m \<le> 3"
        "snd ?pop = ?w1\<lparr>events := events ?w1 @ backoff (BLPOP k timeout) m, now := t'\<rparr>"
        "fst ?pop = (case fault ?w1 (length (events ?w1) + 2 * m) of
            None \<Rightarrow> Inr (popped ?w1 (length (events ?w1) + 2 * m)) | Some e \<Rightarrow> Inl e)"
      unfolding BLPop_def by auto
    let ?w2 = "w0\<lparr>events := events w @ backoff (RPUSH q (TaskData p)) n @ backoff (BLPOP k timeout) m,
             now := t'\<rparr>"
    have w2: "snd ?pop = ?w2" using m(2) by (simp add: d w0_def)
    have len: "length (events ?w1) + 2 * m = length (events w) + 2 * n + 1 + 2 * m"
      using backoff_facts(1)[OF n(1)] by (simp add: w0_def)
    have fst_pop: "fst ?pop = (case fault w (length (events w) + 2 * n + 1 + 2 * m) of
            None \<Rightarrow> Inr (popped w (length (events w) + 2 * n + 1 + 2 * m)) | Some e \<Rightarrow> Inl e)"
      using m(3) unfolding len by (simp add: w0_def split: option.splits)
    show ?thesis
    proof (cases "fault w (length (events w) + 2 * n + 1 + 2 * m)")
      case (Some e)
      then have "?pop = (Inl e, ?w2)" using fst_pop w2 by (simp add: prod_eq_iff)
      then have "SendWithTimeout c action args timeout w = (Inl (pop_error e), c, ?w2)"
        by (simp add: head push)
      then show ?thesis using pop_failed[OF n(1) m(1) Some] by simp
    next
      case None
      then have "?pop = (Inr (popped w (length (events w) + 2 * n + 1 + 2 * m)), ?w2)"
        using fst_pop w2 by (simp add: prod_eq_iff)
      then have "SendWithTimeout c action args timeout w =
         (fst (parse_reply c (popped w (length (events w) + 2 * n + 1 + 2 * m))),
          snd (parse_reply c (popped w (length (events w) + 2 * n + 1 + 2 * m))), ?w2)"
        by (simp add: head push)
      then show ?thesis using popped[OF n(1) m(1) None] by simp
    qed
  qed
qed

lemma SendWithTimeout_client:
  assumes "SendWithTimeout c action args timeout w = (r, c', w')"
  shows "Session c' = Session c" "isl r \<Longrightarrow> c' = c" "InitSent c' = (InitSent c \<or> \<not> isl r)"
proof -
  have "Session c' = Session c \<and> (isl r \<longrightarrow> c' = c) \<and> (InitSent c' = (InitSent c \<or> \<not> isl r))"
  proof (cases "Session c")
    case None
    then show ?thesis using assms by (auto simp: SendWithTimeout_def)
  next
    case (Some s)
    show ?thesis
      by (cases rule: SendWithTimeout_shape[OF Some, where w=w and action=action and args=args and timeout=timeout])
         (use assms in \<open>auto simp: parse_reply_def pop_error_def split: if_splits sum.splits\<close>)
  qed
  then show "Session c' = Session c" "isl r \<Longrightarrow> c' = c" "InitSent c' = (InitSent c \<or> \<not> isl r)"
    by auto
qed

lemma BrowserClient_Send_client:
  "fst (snd (BrowserClient_Send c action args timeoutSeconds w)) = c"
  by (simp add: BrowserClient_Send_def Let_def split: option.splits prod.splits)

lemma added_append [simp]: "added w (w\<lparr>events := events w @ tr, now := t\<rparr>) = tr"
  "added w (w\<lparr>uuid_count := u, events := events w @ tr, now := t\<rparr>) = tr"
  "added w (w\<lparr>uuid_count := u\<rparr>) = []"
  "added w w = []"
  by (simp_all add: added_def)

lemma task_payload_flags:
  "pVideo (task_payload c s action args tid) = (\<not> InitSent c \<and> Video s)"
  "pRecord (task_payload c s action args tid) = (\<not> InitSent c \<and> Record s)"
  "pProfileID (task_payload c s action args tid) = (if InitSent c then [] else ProfileID s)"
  "pBrowserType (task_payload c s action args tid) =
     (if \<not> InitSent c \<and> ProfileID s \<noteq> [] then BrowserType s else [])"
  by (simp_all add: task_payload_def init_flags_def Let_def)

lemma backoff_RPUSH:
  assumes "n \<le> 3" "RPUSH queue d \<in> set (backoff cmd n)"
  shows "cmd = RPUSH queue d"
  using backoff_facts(5)[OF assms(1), of cmd] assms(2) by auto

lemma SendWithTimeout_pushes:
  assumes "Session c = Some s" "SendWithTimeout c action args timeout w = (r, c', w')"
    and "RPUSH queue d \<in> set (added w w')"
  shows "d = TaskData (task_payload c s action args (uuids w (uuid_count w)))"
proof (cases rule: SendWithTimeout_shape[OF assms(1), where w=w and action=action and args=args
    and timeout=timeout, case_names serialize push_failed pop_failed popped])
  case (serialize e)
  with assms(2,3) show ?thesis by auto
next
  case (push_failed n t e)
  with assms(2,3) show ?thesis by (auto dest: backoff_RPUSH)
next
  case (pop_failed n m t e)
  with assms(2,3) show ?thesis by (auto dest: backoff_RPUSH)
next
  case (popped n m t)
  with assms(2,3) show ?thesis by (auto dest: backoff_RPUSH)
qed

lemma added_eqI: "events w' = events w @ tr \<Longrightarrow> added w w' = tr"
  by (simp add: added_def)

lemma SendWithTimeout_prefix:
  assumes "SendWithTimeout c action args timeout w = (r, c', w')"
  shows "events w' = events w @ added w w'" "sets w' = sets w" "fault w' = fault w"
proof -
  have "events w' = events w @ added w w' \<and> sets w' = sets w \<and> fault w' = fault w"
  proof (cases "Session c")
    case None
    then show ?thesis using assms by (auto simp: SendWithTimeout_def)
  next
    case (Some s)
    show ?thesis
      by (cases rule: SendWithTimeout_shape[OF Some, where w=w and action=action and args=args
            and timeout=timeout])
         (use assms in \<open>auto simp: added_def\<close>)
  qed
  then show "events w' = events w @ added w w'" "sets w' = sets w" "fault w' = fault w"
    by auto
qed

lemma backoff_Cons: "n \<le> 3 \<Longrightarrow> \<exists>tr. backoff cmd n = cmd # tr"
  using backoff_facts(3,4)[of n cmd] by (cases "backoff cmd n") auto

lemma task_payload_fields:
  "pArgs (task_payload c s action args tid) = args"
  "pAction (task_payload c s action args tid) = action"
  "pBrowserID (task_payload c s action args tid) = BrowserID s"
  "pWorkerName (task_payload c s action args tid) = WorkerName s"
  "pTaskID (task_payload c s action args tid) = tid"
  "pResultKey (task_payload c s action args tid) = RedisPrefix @ ''result:'' @ tid"
  by (simp_all add: task_payload_def init_flags_def Let_def)

lemma json_Marshal_nil_args: "pArgs p = None \<Longrightarrow> json_Marshal p = Inr (TaskData p)"
  by (simp add: json_Marshal_def)

lemma SendWithTimeout_first_push:
  assumes "Session c = Some s" "SendWithTimeout c action None timeout w = (r, c', w')"
  shows "\<exists>tr. added w w' =
           RPUSH (RedisPrefix @ WorkerName s @ '':tasks'')
             (TaskData (task_payload c s action None (uuids w (uuid_count w)))) # tr"
proof -
  let ?cmd = "RPUSH (RedisPrefix @ WorkerName s @ '':tasks'')
             (TaskData (task_payload c s action None (uuids w (uuid_count w))))"
  have first: "\<exists>tr. added w w' = ?cmd # tr"
    if "n \<le> 3" "events w' = events w @ backoff ?cmd n @ rest" for n rest
  proof -
    from backoff_Cons[OF that(1)] obtain tr where "backoff ?cmd n = ?cmd # tr" by blast
    then show ?thesis using that(2) by (simp add: added_def)
  qed
  show ?thesis
  proof (cases rule: SendWithTimeout_shape[OF assms(1), where w=w and action=action and args=None
      and timeout=timeout, case_names serialize push_failed pop_failed popped])
    case (serialize e)
    then show ?thesis by (simp add: json_Marshal_nil_args task_payload_fields)
  next
    case (push_failed n t e)
    with assms(2) show ?thesis by (intro first[of n "[]"]) auto
  next
    case (pop_failed n m t e)
    with assms(2) show ?thesis
      by (intro first[of n "backoff (BLPOP (RedisPrefix @ ''result:'' @ uuids w (uuid_count w)) timeout) m"]) auto
  next
    case (popped n m t)
    with assms(2) show ?thesis
      by (intro first[of n "backoff (BLPOP (RedisPrefix @ ''result:'' @ uuids w (uuid_count w)) timeout) m"]) auto
  qed
qed

subsection \<open>No session, no task\<close>

text \<open>
  Claim C7. \<open>Send\<close> on a client with no session fails at once with the not-acquired error,
  the client and the world (log of store commands, source of identifiers) untouched: no
  task is built or pushed. This holds for \<open>SendWithTimeout\<close> and \<open>Send\<close> of the Lua-based
  client and for \<open>Send\<close> of the BrowserClient.
\<close>

theorem Send_requires_session:
  "(Session c = None \<longrightarrow>
      SendWithTimeout c action args timeout w =
        (Inl (BrowserError (''Cannot perform action '' @ [CHR 0x27] @ action @ [CHR 0x27]
               @ '': Browser session not acquired.'')), c, w) \<and>
      Send c action args w =
        (Inl (BrowserError (''Cannot perform action '' @ [CHR 0x27] @ action @ [CHR 0x27]
               @ '': Browser session not acquired.'')), c, w)) \<and>
   (bcSession bc = None \<longrightarrow>
      BrowserClient_Send bc action args timeoutSeconds w =
        (Inl (ErrorString ''session not acquired''), bc, w))"
  by (simp add: SendWithTimeout_def Send_def BrowserClient_Send_def NewBrowserError_def)

theorem Send_requires_session_witness:
  "Session idle_client = None \<and>
   SendWithTimeout idle_client ''click'' None 5 quiet_world =
     (Inl (BrowserError ''Cannot perform action 'click': Browser session not acquired.''),
      idle_client, quiet_world) \<and>
   events (snd (snd (Send idle_client ''click'' None quiet_world))) = []"
  using Send_requires_session[of idle_client "''click''" None 5 quiet_world]
  by (simp add: fixture_defs send_defs)

subsection \<open>A failed action leaves the session alone\<close>

text \<open>
  Claim C8. No call of \<open>Send\<close> changes the session of its client, and a call that fails
  returns the client exactly as it was; the same holds for the BrowserClient.
\<close>

theorem Send_keeps_session:
  "(SendWithTimeout c action args timeout w = (r, c', w') \<longrightarrow>
      Session c' = Session c \<and> (isl r \<longrightarrow> c' = c)) \<and>
   (Send c action args w = (r, c', w') \<longrightarrow>
      Session c' = Session c \<and> (isl r \<longrightarrow> c' = c)) \<and>
   fst (snd (BrowserClient_Send bc action args timeoutSeconds w)) = bc"
  using SendWithTimeout_client(1,2) BrowserClient_Send_client
  by (auto simp: Send_def)

theorem Send_keeps_session_witness:
  "fst (SendWithTimeout video_client ''get_title'' None 5 silent_world) =
     Inl (BrowserError ''Timeout waiting for worker response'') \<and>
   fst (snd (SendWithTimeout video_client ''get_title'' None 5 silent_world)) = video_client \<and>
   Session video_client = Some video_session"
  using Send_keeps_session[of video_client "''get_title''" None 5 silent_world
      "fst (SendWithTimeout video_client ''get_title'' None 5 silent_world)"
      "fst (snd (SendWithTimeout video_client ''get_title'' None 5 silent_world))"
      "snd (snd (SendWithTimeout video_client ''get_title'' None 5 silent_world))"]
  by (simp add: fixture_defs send_defs store_defs)

subsection \<open>Timeout against transport failure\<close>

text \<open>
  Claim C6. When the last store command of a \<open>Send\<close> on a live session is the blocking
  pop and it ends with the store's no-value signal \<open>redis.Nil\<close> or with the expiry of the
  deadline, \<open>Send\<close> fails with the timeout error. That error differs from the one
  returned when the pop ends with any other store error (the retries being used up) and
  from the one returned when the push fails for good.
\<close>

theorem SendWithTimeout_timeout:
  assumes "Session c = Some s"
    and "SendWithTimeout c action args timeout w = (r, c', w')"
    and "added w w' \<noteq> []"
    and "fault w (length (events w') - 1) = Some e"
  shows "((\<exists>key t. last (added w w') = BLPOP key t) \<and> (e = RedisNil \<or> e = DeadlineExceeded) \<longrightarrow>
            r = Inl (BrowserError ''Timeout waiting for worker response'')) \<and>
         ((\<exists>key t. last (added w w') = BLPOP key t) \<and> e \<noteq> RedisNil \<and> e \<noteq> DeadlineExceeded \<longrightarrow>
            r = Inl (BrowserError (''Redis RPC Error: '' @ redis_Error e)) \<and>
            r \<noteq> Inl (BrowserError ''Timeout waiting for worker response'')) \<and>
         ((\<exists>queue d. last (added w w') = RPUSH queue d) \<longrightarrow>
            r = Inl (RedisError e) \<and>
            r \<noteq> Inl (BrowserError ''Timeout waiting for worker response''))"
proof (cases rule: SendWithTimeout_shape[OF assms(1), where w=w and action=action and args=args
    and timeout=timeout, case_names serialize push_failed pop_failed popped])
  case (serialize e')
  with assms(2,3) show ?thesis by auto
next
  case (push_failed n t e')
  let ?tr = "backoff (RPUSH (RedisPrefix @ WorkerName s @ '':tasks'')
       (TaskData (task_payload c s action args (uuids w (uuid_count w))))) n"
  from push_failed(3) assms(2) have w': "added w w' = ?tr" "events w' = events w @ ?tr" "r = Inl (RedisError e')"
    by auto
  have "length (events w') - 1 = length (events w) + 2 * n"
    using backoff_facts(1)[OF push_failed(1)] w'(2) by simp
  with assms(4) push_failed(2) have "e' = e" by simp
  then show ?thesis
    using w' backoff_facts(2)[OF push_failed(1)] by auto
next
  case (pop_failed n m t e')
  let ?tr1 = "backoff (RPUSH (RedisPrefix @ WorkerName s @ '':tasks'')
       (TaskData (task_payload c s action args (uuids w (uuid_count w))))) n"
  let ?tr2 = "backoff (BLPOP (RedisPrefix @ ''result:'' @ uuids w (uuid_count w)) timeout) m"
  from pop_failed(4) assms(2) have w': "added w w' = ?tr1 @ ?tr2" "events w' = events w @ ?tr1 @ ?tr2"
    "r = Inl (pop_error e')"
    by auto
  have "length (events w') - 1 = length (events w) + 2 * n + 1 + 2 * m"
    using backoff_facts(1)[OF pop_failed(1)] backoff_facts(1)[OF pop_failed(2)] w'(2) by simp
  with assms(4) pop_failed(3) have "e' = e" by simp
  then show ?thesis
    using w' backoff_facts(2,4)[OF pop_failed(2)]
    by (auto simp: pop_error_def NewBrowserError_def)
next
  case (popped n m t)
  let ?tr1 = "backoff (RPUSH (RedisPrefix @ WorkerName s @ '':tasks'')
       (TaskData (task_payload c s action args (uuids w (uuid_count w))))) n"
  let ?tr2 = "backoff (BLPOP (RedisPrefix @ ''result:'' @ uuids w (uuid_count w)) timeout) m"
  from popped(4) assms(2) have w': "events w' = events w @ ?tr1 @ ?tr2"
    by auto
  have "length (events w') - 1 = length (events w) + 2 * n + 1 + 2 * m"
    using backoff_facts(1)[OF popped(1)] backoff_facts(1)[OF popped(2)] w' by simp
  with assms(4) popped(3) show ?thesis by simp
qed

theorem SendWithTimeout_timeout_witness:
  "Session video_client = Some video_session \<and>
   added silent_world (snd (snd (SendWithTimeout video_client ''get_title'' None 5 silent_world))) =
     [RPUSH ''ISOAUTOMATE:w1:tasks''
        (TaskData (task_payload video_client video_session ''get_title'' None ''u'')),
      BLPOP ''ISOAUTOMATE:result:u'' 5] \<and>
   fault silent_world 1 = Some RedisNil \<and>
   fst (SendWithTimeout video_client ''get_title'' None 5 silent_world) =
     Inl (BrowserError ''Timeout waiting for worker response'')"
  using SendWithTimeout_timeout[of video_client video_session "''get_title''" None 5 silent_world
      "fst (SendWithTimeout video_client ''get_title'' None 5 silent_world)"
      "fst (snd (SendWithTimeout video_client ''get_title'' None 5 silent_world))"
      "snd (snd (SendWithTimeout video_client ''get_title'' None 5 silent_world))" RedisNil]
  by (simp add: fixture_defs send_defs store_defs added_def)

subsection \<open>The init flags\<close>

text \<open>
  Claim C4 as stated puts the browser type among the flags sent exactly when \<open>InitSent\<close>
  is false. It is not: for a session without a profile the payload of the first command
  carries no browser type.
\<close>

theorem init_flags_browser_type_counterexample:
  "\<not> (pBrowserType (task_payload fresh_client plain_session ''get_title'' None ''u'') =
        (if \<not> InitSent fresh_client then BrowserType plain_session else []))"
  by (simp add: fixture_defs send_defs)

text \<open>
  Claim C4, amended. The payload of a \<open>Send\<close> on a live session carries the init flags
  only while \<open>InitSent\<close> is false: then the video and record flags and the profile
  identifier are those of the session, and the browser type is the session's when the
  profile identifier is not empty, otherwise it is left out. With \<open>InitSent\<close> true none
  of the four is carried. Every push of the call carries this payload. \<open>InitSent\<close> is
  true after the call exactly when it was before or the call returned a response; a call
  that fails leaves the client as it was, so its flags are sent again.
\<close>

theorem SendWithTimeout_init_flags:
  assumes "Session c = Some s"
    and "SendWithTimeout c action args timeout w = (r, c', w')"
    and "p = task_payload c s action args (uuids w (uuid_count w))"
  shows "pVideo p = (\<not> InitSent c \<and> Video s) \<and>
         pRecord p = (\<not> InitSent c \<and> Record s) \<and>
         pProfileID p = (if InitSent c then [] else ProfileID s) \<and>
         pBrowserType p = (if \<not> InitSent c \<and> ProfileID s \<noteq> [] then BrowserType s else []) \<and>
         (\<forall>queue d. RPUSH queue d \<in> set (added w w') \<longrightarrow> d = TaskData p) \<and>
         InitSent c' = (InitSent c \<or> \<not> isl r) \<and>
         (isl r \<longrightarrow> c' = c)"
  using SendWithTimeout_pushes[OF assms(1,2)] SendWithTimeout_client(2,3)[OF assms(2)]
  by (simp add: assms(3) task_payload_flags)

theorem SendWithTimeout_init_flags_witness:
  "Session video_client = Some video_session \<and>
   pVideo (task_payload video_client video_session ''get_title'' None ''u'') \<and>
   added quiet_world (snd (snd (SendWithTimeout video_client ''get_title'' None 5 quiet_world))) =
     [RPUSH ''ISOAUTOMATE:w1:tasks''
        (TaskData (task_payload video_client video_session ''get_title'' None ''u'')),
      BLPOP ''ISOAUTOMATE:result:u'' 5] \<and>
   InitSent (fst (snd (SendWithTimeout video_client ''get_title'' None 5 quiet_world))) \<and>
   \<not> InitSent (fst (snd (SendWithTimeout video_client ''get_title'' None 5 silent_world)))"
  using SendWithTimeout_init_flags[of video_client video_session "''get_title''" None 5 quiet_world
      "fst (SendWithTimeout video_client ''get_title'' None 5 quiet_world)"
      "fst (snd (SendWithTimeout video_client ''get_title'' None 5 quiet_world))"
      "snd (snd (SendWithTimeout video_client ''get_title'' None 5 quiet_world))"
      "task_payload video_client video_session ''get_title'' None ''u''"]
  by (simp add: fixture_defs send_defs store_defs added_def)

section \<open>Release\<close>

lemma stop_video_session: "Session (fst (stop_video c w)) = Session c"
proof (cases "SendWithTimeout c ''stop_video'' None (120 * Second) w")
  case (fields r c1 w1)
  from SendWithTimeout_client(1)[OF fields] show ?thesis
    by (auto simp: stop_video_def fields split: sum.splits option.splits jval.splits)
qed

lemma stop_record_session: "Session (fst (stop_record c w)) = Session c"
proof (cases "SendWithTimeout c ''stop_record'' None (60 * Second) w")
  case (fields r c1 w1)
  from SendWithTimeout_client(1)[OF fields] show ?thesis
    by (auto simp: stop_record_def fields split: sum.splits option.splits jval.splits)
qed

lemma Release_returns:
  "Session (fst (snd (Release c w))) = None \<and> fst (Release c w) \<noteq> Panics"
proof (cases "Session c")
  case None
  then show ?thesis by (simp add: Release_def)
next
  case (Some s)
  obtain c1 w1 where s1: "(if Video s then stop_video c w else (c, w)) = (c1, w1)"
    by (cases "if Video s then stop_video c w else (c, w)")
  have "Session c1 = Session c"
    using s1 stop_video_session[of c w] by (auto split: if_splits)
  then have c1: "Session c1 = Some s" using Some by simp
  obtain c2 w2 where s2: "(if Record s then stop_record c1 w1 else (c1, w1)) = (c2, w2)"
    by (cases "if Record s then stop_record c1 w1 else (c1, w1)")
  obtain r c3 w3 where s3: "Send c2 ''release_browser'' None w2 = (r, c3, w3)"
    by (cases "Send c2 ''release_browser'' None w2")
  show ?thesis
    by (cases r) (simp_all add: Release_def Some s1 c1 s2 s3)
qed

lemma BrowserClient_Release_session:
  "bcSession (fst (snd (BrowserClient_Release c w))) = None"
  by (auto simp: BrowserClient_Release_def split: option.splits prod.splits sum.splits)

lemmas release_defs = Release_def stop_video_def stop_record_def

lemmas browser_client_defs = BrowserClient_Release_def BrowserClient_Send_def command_bytes_def
  poll_loop.simps Get_def Del_def Millisecond_def

text \<open>
  Claim C3. \<open>Release\<close> returns without a panic and leaves the session empty, whatever the
  store answers to the teardown and release commands; a \<open>Send\<close> on the client as
  \<open>Release\<close> left it fails with the not-acquired error. The same holds for the
  BrowserClient.
\<close>

theorem Release_clears_session:
  "fst (Release c w) \<noteq> Panics \<and>
   Session (fst (snd (Release c w))) = None \<and>
   fst (SendWithTimeout (fst (snd (Release c w))) action args timeout w') =
     Inl (BrowserError (''Cannot perform action '' @ [CHR 0x27] @ action @ [CHR 0x27]
            @ '': Browser session not acquired.'')) \<and>
   bcSession (fst (snd (BrowserClient_Release bc w))) = None \<and>
   fst (BrowserClient_Send (fst (snd (BrowserClient_Release bc w))) action args timeoutSeconds w') =
     Inl (ErrorString ''session not acquired'')"
  using Release_returns[of c w] BrowserClient_Release_session[of bc w]
  by (simp add: SendWithTimeout_def BrowserClient_Send_def NewBrowserError_def)

text \<open>
  On a client with a video session whose \<open>stop_video\<close> times out, and on a client whose
  release command itself times out.
\<close>

theorem Release_clears_session_witness:
  "Session (fst (snd (Release video_client silent_world))) = None \<and>
   fst (Release video_client silent_world) = Returns ([(''status'', JStr ''ok'')], None) \<and>
   fst (Release fresh_client silent_world) =
     Returns ([(''status'', JStr ''error''),
               (''error'', JStr ''isoAutomate Error: Timeout waiting for worker response'')],
              Some (BrowserError ''Timeout waiting for worker response'')) \<and>
   Session (fst (snd (Release fresh_client silent_world))) = None \<and>
   fst (SendWithTimeout (fst (snd (Release fresh_client silent_world))) ''click'' None 5 quiet_world) =
     Inl (BrowserError ''Cannot perform action 'click': Browser session not acquired.'') \<and>
   bcSession (fst (snd (BrowserClient_Release live_browser_client quiet_world))) = None"
  using Release_clears_session[of fresh_client silent_world "''click''" None 5 quiet_world
      live_browser_client 5]
  by (simp add: fixture_defs send_defs store_defs release_defs browser_client_defs)

text \<open>
  Claim C9. \<open>Release\<close> on a client with no session returns the not-acquired failure and
  nothing else happens: the client and the world, with its log of store commands, are
  as before. The Lua-based client reports the failure in the map it returns (status
  \<open>error\<close>, error \<open>not_acquired\<close>) with a nil error; the BrowserClient returns the error
  \<open>no active session\<close>.
\<close>

theorem Release_not_acquired:
  "(Session c = None \<longrightarrow>
      Release c w =
        (Returns ([(''status'', JStr ''error''), (''error'', JStr ''not_acquired'')], None), c, w)) \<and>
   (bcSession bc = None \<longrightarrow>
      BrowserClient_Release bc w = (([], Some (ErrorString ''no active session'')), bc, w))"
  by (simp add: Release_def BrowserClient_Release_def)

theorem Release_not_acquired_witness:
  "Session idle_client = None \<and>
   Release idle_client quiet_world =
     (Returns ([(''status'', JStr ''error''), (''error'', JStr ''not_acquired'')], None),
      idle_client, quiet_world)"
  using Release_not_acquired[of idle_client quiet_world]
  by (simp add: fixture_defs)

section \<open>Acquire\<close>

lemmas acquire_defs = Acquire_def Eval_def luaScript_def free_key_def busy_key_def spop_def
  sadd_def lua_swap_def math_random_def WorkersSet_def no_browsers_error_def lua_error_def
  acquired_def

lemma resolve_profile_world:
  "\<exists>u p. snd (resolve_profile prof w) = w\<lparr>uuid_count := u, profile_file := p\<rparr>"
proof (cases prof)
  case ProfileNil
  show ?thesis unfolding ProfileNil
    by (rule exI[of _ "uuid_count w"], rule exI[of _ "profile_file w"]) simp
next
  case (ProfileString x)
  show ?thesis unfolding ProfileString
    by (rule exI[of _ "uuid_count w"], rule exI[of _ "profile_file w"]) simp
next
  case (ProfileBool b)
  show ?thesis
  proof (cases "b \<and> profile_file w = None")
    case True
    then show ?thesis unfolding ProfileBool
      by (intro exI) (simp add: uuid_New_def Let_def)
  next
    case False
    then show ?thesis unfolding ProfileBool
      by (intro exI[of _ "uuid_count w"] exI[of _ "profile_file w"]) auto
  qed
next
  case ProfileOther
  show ?thesis unfolding ProfileOther
    by (rule exI[of _ "uuid_count w"], rule exI[of _ "profile_file w"]) simp
qed

text \<open>
  The three ways \<open>Acquire\<close> ends when the script's reply is well formed: the \<open>EVAL\<close> meets
  a fault; the script returns nil; the script returns a pair, and the warm-up command is
  sent when a profile, video or record was asked for.
\<close>

lemma Acquire_shape:
  fixes c :: Client and browserType :: string and video :: bool and rec :: bool
    and prof :: profile
    and w :: world
  defines "profileID \<equiv> fst (resolve_profile prof w)"
  defines "w0 \<equiv> snd (resolve_profile prof w)"
  defines "n0 \<equiv> length (events w)"
  defines "c0 \<equiv> c\<lparr>InitSent := False\<rparr>"
  defines "script \<equiv> luaScript (rand w n0) WorkersSet RedisPrefix browserType (sets w)"
  defines "w1 \<equiv> w0\<lparr>events := events w @ [EVAL WorkersSet RedisPrefix browserType],
                     now := now w + int (latency w n0)\<rparr>"
  obtains
    (fault) e where "fault w n0 = Some e"
      "Acquire c browserType video prof rec w = (Returns (Inl (lua_error e)), c0, w1)"
  | (none) "fault w n0 = None" "fst script = None"
      "Acquire c browserType video prof rec w =
         (Returns (Inl (no_browsers_error browserType)), c0, w1\<lparr>sets := snd script\<rparr>)"
  | (claimed) worker bid c1 where "fault w n0 = None" "fst script = Some (worker, bid)"
      "c1 = c0\<lparr>Session := Some \<lparr>BrowserID = bid, WorkerName = worker,
                  BrowserType = browserType, Video = video, Record = rec,
                  ProfileID = profileID\<rparr>\<rparr>"
      "Acquire c browserType video prof rec w =
         (if profileID \<noteq> [] \<or> video \<or> rec
          then (Returns (Inr (acquired worker bid)),
                snd (Send c1 ''get_title'' None (w1\<lparr>sets := snd script\<rparr>)))
          else (Returns (Inr (acquired worker bid)), c1, w1\<lparr>sets := snd script\<rparr>))"
proof -
  obtain u p where w0: "w0 = w\<lparr>uuid_count := u, profile_file := p\<rparr>"
    using resolve_profile_world[of prof w] unfolding w0_def by blast
  have rp: "resolve_profile prof w = (profileID, w0)"
    by (simp add: profileID_def w0_def)
  show ?thesis
  proof (cases "fault w n0")
    case (Some e)
    have "Acquire c browserType video prof rec w = (Returns (Inl (lua_error e)), c0, w1)"
      using Some
      by (simp add: Acquire_def rp Eval_def store_call_def Let_def w0 n0_def c0_def w1_def
            lua_error_def NewBrowserError_def)
    with Some show ?thesis by (rule fault)
  next
    case None
    show ?thesis
    proof (cases "fst script")
      case n: None
      then obtain st where sc: "script = (None, st)" by (cases script) auto
      have "Acquire c browserType video prof rec w =
         (Returns (Inl (no_browsers_error browserType)), c0, w1\<lparr>sets := snd script\<rparr>)"
        using None sc[unfolded script_def n0_def]
        by (simp add: Acquire_def rp Eval_def store_call_def Let_def w0 n0_def c0_def w1_def
              no_browsers_error_def NewBrowserError_def script_def)
      with None n show ?thesis by (rule none)
    next
      case (Some pair)
      obtain worker bid where pair: "pair = (worker, bid)" by (cases pair)
      obtain st where sc: "script = (Some (worker, bid), st)"
        using Some pair by (cases script) auto
      let ?c1 = "c0\<lparr>Session := Some \<lparr>BrowserID = bid, WorkerName = worker,
                  BrowserType = browserType, Video = video, Record = rec,
                  ProfileID = profileID\<rparr>\<rparr>"
      have "Acquire c browserType video prof rec w =
         (if profileID \<noteq> [] \<or> video \<or> rec
          then (Returns (Inr (acquired worker bid)),
                snd (Send ?c1 ''get_title'' None (w1\<lparr>sets := snd script\<rparr>)))
          else (Returns (Inr (acquired worker bid)), ?c1, w1\<lparr>sets := snd script\<rparr>))"
        using None sc[unfolded script_def n0_def]
        by (simp add: Acquire_def rp Eval_def store_call_def Let_def w0 n0_def c0_def w1_def
              acquired_def script_def split: prod.splits)
      with None Some pair show ?thesis using claimed[of worker bid ?c1] by simp
    qed
  qed
qed



subsection \<open>An empty or unreadable worker pool\<close>




subsection \<open>The reset of InitSent\<close>

text \<open>
  Claim C10 as stated has the first \<open>Send\<close> after a successful \<open>Acquire\<close> carry the flags.
  When video is asked for, \<open>Acquire\<close> itself sends the warm-up \<open>get_title\<close>; once that is
  answered \<open>InitSent\<close> is true again, and the next \<open>Send\<close> carries no video flag.
\<close>

theorem Acquire_first_Send_counterexample:
  "fst (Acquire idle_client ''chrome'' True ProfileNil False pool_world) =
     Returns (Inr [(''status'', JStr ''ok''), (''browser_id'', JStr ''b1''), (''worker'', JStr ''w1'')]) \<and>
   fst (snd (Acquire idle_client ''chrome'' True ProfileNil False pool_world)) =
     video_client\<lparr>InitSent := True\<rparr> \<and>
   Video video_session \<and>
   \<not> pVideo (task_payload (video_client\<lparr>InitSent := True\<rparr>) video_session ''open_url'' None ''u'')"
  by (simp add: fixture_defs acquire_defs send_defs store_defs)

text \<open>
  Claim C10, amended. \<open>Acquire\<close> resets \<open>InitSent\<close> before it claims a browser: what it does
  and returns does not depend on the value the flag had. After a successful \<open>Acquire\<close> the
  client holds the new session, and the first command of that session carries its
  flags: when a profile, video or record was asked for, that command is the warm-up
  \<open>get_title\<close> which \<open>Acquire\<close> pushes right after the claim; otherwise nothing was sent yet
  and \<open>InitSent\<close> is false when \<open>Acquire\<close> returns, so the caller's first \<open>Send\<close> is that
  command.
\<close>

theorem Acquire_resets_InitSent:
  assumes "Acquire c browserType video prof record w = (Returns (Inr res), c', w')"
  shows "Acquire (c\<lparr>InitSent := b\<rparr>) browserType video prof record w =
           Acquire c browserType video prof record w \<and>
         (\<exists>s. Session c' = Some s \<and> BrowserType s = browserType \<and> Video s = video \<and>
              Record s = record \<and> ProfileID s = fst (resolve_profile prof w) \<and>
              (if ProfileID s \<noteq> [] \<or> video \<or> record
               then (\<exists>queue p tr.
                       added w w' =
                         EVAL WorkersSet RedisPrefix browserType # RPUSH queue (TaskData p) # tr \<and>
                       pAction p = ''get_title'' \<and> pBrowserID p = BrowserID s \<and>
                       pVideo p = video \<and> pRecord p = record \<and> pProfileID p = ProfileID s \<and>
                       pBrowserType p = (if ProfileID s \<noteq> [] then browserType else []))
               else InitSent c' = False \<and>
                    added w w' = [EVAL WorkersSet RedisPrefix browserType]))"
proof
  show "Acquire (c\<lparr>InitSent := b\<rparr>) browserType video prof record w =
           Acquire c browserType video prof record w"
    by (simp add: Acquire_def)
next
  obtain u p where w0: "snd (resolve_profile prof w) = w\<lparr>uuid_count := u, profile_file := p\<rparr>"
    using resolve_profile_world[of prof w] by blast
  let ?pid = "fst (resolve_profile prof w)"
  show "\<exists>s. Session c' = Some s \<and> BrowserType s = browserType \<and> Video s = video \<and>
              Record s = record \<and> ProfileID s = ?pid \<and>
              (if ProfileID s \<noteq> [] \<or> video \<or> record
               then (\<exists>queue p tr.
                       added w w' =
                         EVAL WorkersSet RedisPrefix browserType # RPUSH queue (TaskData p) # tr \<and>
                       pAction p = ''get_title'' \<and> pBrowserID p = BrowserID s \<and>
                       pVideo p = video \<and> pRecord p = record \<and> pProfileID p = ProfileID s \<and>
                       pBrowserType p = (if ProfileID s \<noteq> [] then browserType else []))
               else InitSent c' = False \<and>
                    added w w' = [EVAL WorkersSet RedisPrefix browserType])"
  proof (cases rule: Acquire_shape[where w=w and browserType=browserType and c=c and video=video
          and prof=prof and rec="record", case_names fault none claimed])
    case (fault e)
    with assms show ?thesis by simp
  next
    case none
    with assms show ?thesis by simp
  next
    case (claimed worker bid c1)
    let ?s = "\<lparr>BrowserID = bid, WorkerName = worker, BrowserType = browserType,
                Video = video, Record = record, ProfileID = ?pid\<rparr>"
    let ?w1 = "(snd (resolve_profile prof w))\<lparr>events := events w @ [EVAL WorkersSet RedisPrefix browserType],
                     now := now w + int (latency w (length (events w))),
                     sets := snd (luaScript (rand w (length (events w))) WorkersSet RedisPrefix
                                browserType (sets w))\<rparr>"
    have c1: "Session c1 = Some ?s" "InitSent c1 = False" using claimed(3) by simp_all
    show ?thesis
    proof (cases "?pid \<noteq> [] \<or> video \<or> record")
      case False
      with claimed(3,4) assms have "c' = c1" "w' = ?w1" by auto
      with False c1 show ?thesis by (auto simp: added_def w0)
    next
      case True
      obtain r c2 w2 where send: "SendWithTimeout c1 ''get_title'' None DefaultRPCWait ?w1 = (r, c2, w2)"
        by (cases "SendWithTimeout c1 ''get_title'' None DefaultRPCWait ?w1")
      with True claimed(4) assms have eq: "c' = c2" "w' = w2" by (auto simp: Send_def)
      from SendWithTimeout_first_push[OF c1(1) send] obtain tr where
        tr: "added ?w1 w2 = RPUSH (RedisPrefix @ WorkerName ?s @ '':tasks'')
               (TaskData (task_payload c1 ?s ''get_title'' None (uuids ?w1 (uuid_count ?w1)))) # tr"
        by blast
      have "events w2 = events ?w1 @ added ?w1 w2"
        using SendWithTimeout_prefix(1)[OF send] .
      then have "events w2 = events w @ EVAL WorkersSet RedisPrefix browserType # added ?w1 w2"
        by (simp add: w0)
      then have ev: "added w w2 = EVAL WorkersSet RedisPrefix browserType # added ?w1 w2"
        by (rule added_eqI)
      have s: "Session c2 = Some ?s"
        using SendWithTimeout_client(1)[OF send] c1(1) by simp
      show ?thesis
        using True s ev tr c1(2) unfolding eq
        by (auto simp: task_payload_fields task_payload_flags)
    qed
  qed
qed

theorem Acquire_resets_InitSent_witness:
  "Acquire (idle_client\<lparr>InitSent := True\<rparr>) ''chrome'' True ProfileNil False pool_world =
     Acquire idle_client ''chrome'' True ProfileNil False pool_world \<and>
   fst (Acquire idle_client ''chrome'' True ProfileNil False pool_world) =
     Returns (Inr [(''status'', JStr ''ok''), (''browser_id'', JStr ''b1''), (''worker'', JStr ''w1'')]) \<and>
   added pool_world (snd (snd (Acquire idle_client ''chrome'' True ProfileNil False pool_world))) =
     [EVAL ''ISOAUTOMATE:workers'' ''ISOAUTOMATE:'' ''chrome'',
      RPUSH ''ISOAUTOMATE:w1:tasks''
        (TaskData \<lparr>pTaskID = ''u'', pBrowserID = ''b1'', pWorkerName = ''w1'',
           pAction = ''get_title'', pArgs = None, pResultKey = ''ISOAUTOMATE:result:u'',
           pVideo = True, pRecord = False, pProfileID = [], pBrowserType = []\<rparr>),
      BLPOP ''ISOAUTOMATE:result:u'' 60000000000]"
  using Acquire_resets_InitSent[of idle_client "''chrome''" True ProfileNil False pool_world
      "[(''status'', JStr ''ok''), (''browser_id'', JStr ''b1''), (''worker'', JStr ''w1'')]"
      "fst (snd (Acquire idle_client ''chrome'' True ProfileNil False pool_world))"
      "snd (snd (Acquire idle_client ''chrome'' True ProfileNil False pool_world))" True]
  by (simp add: fixture_defs acquire_defs send_defs store_defs added_def)

section \<open>Exclusive allocation\<close>

subsection \<open>Keys, the shuffle and the script\<close>












lemma spop_nonempty: "members \<noteq> [] \<Longrightarrow> \<exists>bid rest. spop pick members = (Some bid, rest)"
  by (simp add: spop_def Let_def)











lemma distinct_ids:
  assumes "distinct ps" "inj_on snd (set ps)"
  shows "distinct (map snd ps)"
  using assms by (simp add: distinct_map)

subsection \<open>The BrowserClient, command by command\<close>



















subsection \<open>The callers of the BrowserClient, counted\<close>


























subsection \<open>No instance is given out twice\<close>




end
